theory Spec2Isabelle
  imports Complex_Main "HOL-Library.Sublist"
begin

section \<open>Python values decoded from JSON\<close>

text \<open>
  The values \<^verbatim>\<open>json.loads\<close> hands to \<^verbatim>\<open>robot.py\<close>: \<^verbatim>\<open>None\<close>, booleans, integers, strings,
  lists and dictionaries. A dictionary is an association list read with \<open>map_of\<close>, so
  that the first pair with a key is the entry of that key.
  Numbers with a fraction or an exponent (Python floats) are left out of the model.
  Strings are lists of code points below 256.
\<close>

datatype json =
    JNull
  | JBool bool
  | JInt int
  | JStr string
  | JList "json list"
  | JObj "(string \<times> json) list"

text \<open>Exceptions of the Python runtime that \<^verbatim>\<open>robot.py\<close> never catches.\<close>

datatype py_exn = KeyError | TypeError

subsection \<open>\<^verbatim>\<open>str\<close> and \<^verbatim>\<open>repr\<close>\<close>

definition digit_char :: "nat \<Rightarrow> char" where
  "digit_char d = ''0123456789'' ! d"

fun str_of_nat :: "nat \<Rightarrow> string" where
  "str_of_nat n =
     (if n < 10 then [digit_char n] else str_of_nat (n div 10) @ [digit_char (n mod 10)])"

declare str_of_nat.simps [simp del]

definition str_of_int :: "int \<Rightarrow> string" where
  "str_of_int i = (if i < 0 then CHR ''-'' # str_of_nat (nat (- i)) else str_of_nat (nat i))"

definition hex_digit :: "nat \<Rightarrow> char" where
  "hex_digit d = ''0123456789abcdef'' ! d"

text \<open>
  \<^verbatim>\<open>str.isprintable\<close> on one code point below 256: the control characters, DEL, the C1
  controls, the no-break space (0xA0) and the soft hyphen (0xAD) are not printable.
\<close>

definition printable :: "char \<Rightarrow> bool" where
  "printable c = (let n = (of_char c :: nat) in (32 \<le> n \<and> n < 127) \<or> (161 \<le> n \<and> n \<noteq> 173))"

definition repr_char :: "char \<Rightarrow> char \<Rightarrow> string" where
  "repr_char q c =
     (if c = q \<or> c = CHR 0x5C then [CHR 0x5C, c]
      else if c = CHR 0x09 then [CHR 0x5C, CHR ''t'']
      else if c = CHR 0x0A then [CHR 0x5C, CHR ''n'']
      else if c = CHR 0x0D then [CHR 0x5C, CHR ''r'']
      else if printable c then [c]
      else [CHR 0x5C, CHR ''x'', hex_digit (of_char c div 16), hex_digit (of_char c mod 16)])"

text \<open>
  \<^verbatim>\<open>repr\<close> of a string: single quotes, unless the string has a single quote and no double
  quote.
\<close>

definition repr_str :: "string \<Rightarrow> string" where
  "repr_str s =
     (let q = (if CHR 0x27 \<in> set s \<and> CHR 0x22 \<notin> set s then CHR 0x22 else CHR 0x27)
      in [q] @ concat (map (repr_char q) s) @ [q])"

fun comma_join :: "string list \<Rightarrow> string" where
  "comma_join [] = []"
| "comma_join [x] = x"
| "comma_join (x # y # ys) = x @ '', '' @ comma_join (y # ys)"

fun py_repr :: "json \<Rightarrow> string" where
  "py_repr JNull = ''None''"
| "py_repr (JBool b) = (if b then ''True'' else ''False'')"
| "py_repr (JInt i) = str_of_int i"
| "py_repr (JStr s) = repr_str s"
| "py_repr (JList xs) = ''['' @ comma_join (map py_repr xs) @ '']''"
| "py_repr (JObj kvs) =
     ''{'' @ comma_join (map (\<lambda>(k, v). repr_str k @ '': '' @ py_repr v) kvs) @ ''}''"

text \<open>\<^verbatim>\<open>str(x)\<close>, which is what \<^verbatim>\<open>'{0}'.format(x)\<close> inserts.\<close>

definition py_str :: "json \<Rightarrow> string" where
  "py_str x = (case x of JStr s \<Rightarrow> s | _ \<Rightarrow> py_repr x)"

text \<open>Truth value of a Python object, as \<^verbatim>\<open>if x:\<close> takes it.\<close>

definition truthy :: "json \<Rightarrow> bool" where
  "truthy x =
     (case x of
        JNull \<Rightarrow> False
      | JBool b \<Rightarrow> b
      | JInt i \<Rightarrow> i \<noteq> 0
      | JStr s \<Rightarrow> s \<noteq> []
      | JList xs \<Rightarrow> xs \<noteq> []
      | JObj kvs \<Rightarrow> kvs \<noteq> [])"

subsection \<open>Subscription and \<^verbatim>\<open>dict.get\<close>\<close>

text \<open>
  \<^verbatim>\<open>obj[k]\<close> for a string \<open>k\<close>: a dictionary without the key raises \<^verbatim>\<open>KeyError\<close>, and every
  other JSON value raises \<^verbatim>\<open>TypeError\<close> (lists and strings take integer indices, the rest
  is not subscriptable).
\<close>

definition subscript :: "json \<Rightarrow> string \<Rightarrow> py_exn + json" where
  "subscript obj k =
     (case obj of
        JObj kvs \<Rightarrow> (case map_of kvs k of None \<Rightarrow> Inl KeyError | Some v \<Rightarrow> Inr v)
      | _ \<Rightarrow> Inl TypeError)"

text \<open>
  \<^verbatim>\<open>obj.get(k)\<close>, with \<^verbatim>\<open>None\<close> for a missing key. \<^verbatim>\<open>format_error_msg\<close> reaches its
  \<^verbatim>\<open>get\<close> calls only after \<^verbatim>\<open>error['status']\<close> succeeded, that is on a dictionary.
\<close>

definition dict_get :: "json \<Rightarrow> string \<Rightarrow> json" where
  "dict_get obj k =
     (case obj of
        JObj kvs \<Rightarrow> (case map_of kvs k of None \<Rightarrow> JNull | Some v \<Rightarrow> v)
      | _ \<Rightarrow> JNull)"

section \<open>Form encoding helper\<close>

text \<open>
  \<^verbatim>\<open>enumerate(values)\<close>, and \<^verbatim>\<open>dict(pairs)\<close>: a later pair replaces an earlier one with the
  same key.
\<close>

definition enumerate_list :: "'a list \<Rightarrow> (nat \<times> 'a) list" where
  "enumerate_list xs = zip [0..<length xs] xs"

definition dict_of_pairs :: "('k \<times> 'v) list \<Rightarrow> ('k \<rightharpoonup> 'v)" where
  "dict_of_pairs ps = map_of (rev ps)"

definition get_x_www_form_urlenconded_dict_from_list :: "string \<Rightarrow> 'a list \<Rightarrow> (string \<rightharpoonup> 'a)" where
  "get_x_www_form_urlenconded_dict_from_list key values =
     (if length values = 1 then [key @ ''[]'' \<mapsto> values ! 0]
      else dict_of_pairs
             (map (\<lambda>(i, x). (key @ ''['' @ str_of_nat i @ '']'', x)) (enumerate_list values)))"

section \<open>Error formatter\<close>

text \<open>
  \<^verbatim>\<open>_format_list\<close>: a list is mapped element by element, anything else goes through
  \<^verbatim>\<open>to_native\<close>, which keeps a string and takes \<^verbatim>\<open>str\<close> of every other object.
\<close>

fun format_list :: "json \<Rightarrow> json" where
  "format_list (JList xs) = JList (map format_list xs)"
| "format_list x = JStr (py_str x)"

definition format_error_msg :: "json \<Rightarrow> py_exn + string" where
  "format_error_msg error =
     (case subscript error ''status'' of Inl x \<Rightarrow> Inl x | Inr status \<Rightarrow>
      case subscript error ''code'' of Inl x \<Rightarrow> Inl x | Inr code \<Rightarrow>
      case subscript error ''message'' of Inl x \<Rightarrow> Inl x | Inr message \<Rightarrow>
        let msg0 = ''Request failed: '' @ py_str status @ '' '' @ py_str code
                     @ '' ('' @ py_str message @ '')'';
            msg1 = (if truthy (dict_get error ''missing'')
                    then msg0 @ ''. Missing input parameters: ''
                           @ py_str (format_list (dict_get error ''missing''))
                    else msg0);
            msg2 = (if truthy (dict_get error ''invalid'')
                    then msg1 @ ''. Invalid input parameters: ''
                           @ py_str (format_list (dict_get error ''invalid''))
                    else msg1);
            msg3 = (if dict_get error ''max_request'' \<noteq> JNull
                    then msg2 @ ''. Maximum allowed requests: ''
                           @ py_str (dict_get error ''max_request'')
                    else msg2);
            msg4 = (if dict_get error ''interval'' \<noteq> JNull
                    then msg3 @ ''. Time interval in seconds: ''
                           @ py_str (dict_get error ''interval'')
                    else msg3)
        in Inr msg4)"

subsection \<open>The error payload of the specification\<close>

text \<open>
  The specification's ApiError: three mandatory fields and four optional ones. Its wire
  form is the dictionary with one key for every field that is set.
\<close>

record api_error =
  status :: int
  code :: string
  message :: string
  missing :: "string list option"
  invalid :: "string list option"
  max_request :: "int option"
  interval :: "int option"

definition opt_field :: "string \<Rightarrow> 'a option \<Rightarrow> ('a \<Rightarrow> json) \<Rightarrow> (string \<times> json) list" where
  "opt_field k v enc = (case v of None \<Rightarrow> [] | Some x \<Rightarrow> [(k, enc x)])"

definition api_error_json :: "api_error \<Rightarrow> json" where
  "api_error_json e =
     JObj ([(''status'', JInt (status e)), (''code'', JStr (code e)),
            (''message'', JStr (message e))]
           @ opt_field ''missing'' (missing e) (\<lambda>xs. JList (map JStr xs))
           @ opt_field ''invalid'' (invalid e) (\<lambda>xs. JList (map JStr xs))
           @ opt_field ''max_request'' (max_request e) JInt
           @ opt_field ''interval'' (interval e) JInt)"

text \<open>
  The formatter in the words of the specification (section 4.1): the head, then one clause
  for every optional field that is present, in the order missing, invalid, max_request,
  interval. A list of strings is rendered as Python prints it.
\<close>

definition render_strings :: "string list \<Rightarrow> string" where
  "render_strings xs = ''['' @ comma_join (map repr_str xs) @ '']''"

definition format_error_message_spec :: "api_error \<Rightarrow> string" where
  "format_error_message_spec e =
     ''Request failed: '' @ str_of_int (status e) @ '' '' @ code e @ '' ('' @ message e @ '')''
     @ (case missing e of None \<Rightarrow> []
        | Some xs \<Rightarrow> ''. Missing input parameters: '' @ render_strings xs)
     @ (case invalid e of None \<Rightarrow> []
        | Some xs \<Rightarrow> ''. Invalid input parameters: '' @ render_strings xs)
     @ (case max_request e of None \<Rightarrow> []
        | Some n \<Rightarrow> ''. Maximum allowed requests: '' @ str_of_int n)
     @ (case interval e of None \<Rightarrow> []
        | Some n \<Rightarrow> ''. Time interval in seconds: '' @ str_of_int n)"

text \<open>An optional list that is set but empty, read as not set.\<close>

definition nonempty :: "'a list option \<Rightarrow> 'a list option" where
  "nonempty v = (case v of Some [] \<Rightarrow> None | _ \<Rightarrow> v)"

section \<open>Request executor\<close>

text \<open>
  How a call of this module fails: \<^verbatim>\<open>PluginException(message)\<close> raised by
  \<^verbatim>\<open>plugin_open_url_json\<close>; \<^verbatim>\<open>module.fail_json(msg=..., error=...)\<close>, which ends the module
  run, called by \<^verbatim>\<open>fetch_url_json\<close>; \<^verbatim>\<open>CheckDoneTimeoutException(result, error)\<close> raised by
  the poller; and an exception of the Python runtime that no handler of the module catches.
\<close>

datatype failure =
    PluginException string
  | FailJson string "json option"
  | CheckDoneTimeoutException "json option" "json option"
  | Uncaught py_exn

type_synonym outcome = "json option \<times> json option"

text \<open>
  The keyword arguments shared by the two executors. \<^verbatim>\<open>accept_errors\<close> is a list of error
  codes; \<^verbatim>\<open>None\<close>, which \<^verbatim>\<open>if accept_errors:\<close> treats like the empty list, is the empty list.
\<close>

record request_opts =
  http_method :: string
  http_timeout :: int
  http_data :: "string option"
  http_headers :: "(string \<times> string) list"
  accept_errors :: "string list"
  allow_empty_result :: bool
  allowed_empty_result_status_codes :: "int list"

record credentials =
  hetzner_user :: string
  hetzner_password :: string

record templar =
  is_template :: "string \<Rightarrow> bool"
  template :: "string \<Rightarrow> string"

text \<open>The arguments \<^verbatim>\<open>open_url\<close> and \<^verbatim>\<open>fetch_url\<close> are called with.\<close>

record url_call =
  call_url :: string
  url_username :: string
  url_password :: string
  force_basic_auth :: bool
  call_data :: "string option"
  call_headers :: "(string \<times> string) list"
  call_method :: string
  call_timeout :: int

text \<open>
  What \<^verbatim>\<open>open_url\<close> followed by \<^verbatim>\<open>response.read()\<close> does: a response with its status and
  body; an \<^verbatim>\<open>HTTPError\<close> with a status whose \<^verbatim>\<open>read()\<close> returns a body; an \<^verbatim>\<open>HTTPError\<close> with
  a status whose \<^verbatim>\<open>read()\<close> raises \<^verbatim>\<open>AttributeError\<close>; or any other \<^verbatim>\<open>Exception\<close> \<open>e\<close>, kept as
  the text \<^verbatim>\<open>str(e)\<close>.
\<close>

datatype open_url_result =
    Response int string
  | HTTPError_body int string
  | HTTPError_no_read int
  | Raised string

text \<open>\<^verbatim>\<open>x in result\<close> for the string \<^verbatim>\<open>'error'\<close>: key of a dictionary, element of a list,
  substring of a string; the other values are not iterable.\<close>

definition contains_error :: "json \<Rightarrow> py_exn + bool" where
  "contains_error result =
     (case result of
        JObj kvs \<Rightarrow> Inr (map_of kvs ''error'' \<noteq> None)
      | JList xs \<Rightarrow> Inr (JStr ''error'' \<in> set xs)
      | JStr s \<Rightarrow> Inr (sublist ''error'' s)
      | _ \<Rightarrow> Inl TypeError)"

text \<open>\<^verbatim>\<open>code in accept_errors\<close>, for a list of strings: only an equal string is a member.\<close>

definition code_in :: "json \<Rightarrow> string list \<Rightarrow> bool" where
  "code_in c acc = (case c of JStr s \<Rightarrow> s \<in> set acc | _ \<Rightarrow> False)"

definition open_url_call :: "credentials \<Rightarrow> string \<Rightarrow> request_opts \<Rightarrow> templar option \<Rightarrow> url_call" where
  "open_url_call plugin url opts tmpl =
     (let user = hetzner_user plugin;
          password = hetzner_password plugin;
          user' = (case tmpl of None \<Rightarrow> user
                   | Some t \<Rightarrow> if is_template t user then template t user else user);
          password' = (case tmpl of None \<Rightarrow> password
                       | Some t \<Rightarrow> if is_template t password then template t password
                                   else password)
      in \<lparr>call_url = url, url_username = user', url_password = password',
          force_basic_auth = True, call_data = http_data opts,
          call_headers = http_headers opts, call_method = http_method opts,
          call_timeout = http_timeout opts\<rparr>)"

definition plugin_open_url_json ::
  "(url_call \<Rightarrow> open_url_result) \<Rightarrow> (string \<Rightarrow> json option) \<Rightarrow> credentials \<Rightarrow> string
     \<Rightarrow> request_opts \<Rightarrow> templar option \<Rightarrow> failure + outcome" where
  "plugin_open_url_json open_url json_loads plugin url opts tmpl =
     (case (case open_url (open_url_call plugin url opts tmpl) of
              Response st content \<Rightarrow> Inr (st, content)
            | HTTPError_body st content \<Rightarrow> Inr (st, content)
            | HTTPError_no_read st \<Rightarrow> Inr (st, [])
            | Raised e \<Rightarrow>
                Inl (PluginException
                       (''Failed request to Hetzner Robot server endpoint '' @ url @ '': '' @ e)))
      of Inl f \<Rightarrow> Inl f
       | Inr (st, content) \<Rightarrow>
           if content = [] then
             (if allow_empty_result opts \<and> st \<in> set (allowed_empty_result_status_codes opts)
              then Inr (None, None)
              else Inl (PluginException
                          (''Cannot retrieve content from '' @ url @ '', HTTP status code ''
                             @ str_of_int st)))
           else
             (case json_loads content of
                None \<Rightarrow> Inl (PluginException (''Cannot decode content retrieved from '' @ url))
              | Some result \<Rightarrow>
                  (let raise_error =
                         (case subscript result ''error'' of Inl x \<Rightarrow> Inl (Uncaught x)
                          | Inr err \<Rightarrow>
                              (case format_error_msg err of Inl x \<Rightarrow> Inl (Uncaught x)
                               | Inr msg \<Rightarrow> Inl (PluginException msg)))
                   in case contains_error result of
                        Inl x \<Rightarrow> Inl (Uncaught x)
                      | Inr False \<Rightarrow> Inr (Some result, None)
                      | Inr True \<Rightarrow>
                          if accept_errors opts \<noteq> [] then
                            (case subscript result ''error'' of Inl x \<Rightarrow> Inl (Uncaught x)
                             | Inr err \<Rightarrow>
                                 (case subscript err ''code'' of Inl x \<Rightarrow> Inl (Uncaught x)
                                  | Inr c \<Rightarrow>
                                      if code_in c (accept_errors opts)
                                      then Inr (Some result, Some c)
                                      else raise_error))
                          else raise_error)))"

text \<open>
  What \<^verbatim>\<open>fetch_url\<close> returns: the response object (\<^verbatim>\<open>None\<close>, closed, or open with the bytes
  \<^verbatim>\<open>read()\<close> returns) and the \<^verbatim>\<open>info\<close> dictionary, of which \<^verbatim>\<open>fetch_url_json\<close> reads the keys
  \<^verbatim>\<open>status\<close> and \<^verbatim>\<open>body\<close>. Reading \<^verbatim>\<open>None\<close> raises \<^verbatim>\<open>AttributeError\<close> and a closed response
  counts as \<^verbatim>\<open>TypeError\<close> (raised by hand on Python 3, by \<^verbatim>\<open>read\<close> on Python 2): both land in
  the handler that takes the body from \<^verbatim>\<open>info\<close>.
\<close>

datatype fetch_resp = RespNone | RespClosed | RespOpen string

record fetch_info =
  info_status :: "int option"
  info_body :: "string option"

definition fetch_url_call :: "credentials \<Rightarrow> string \<Rightarrow> request_opts \<Rightarrow> url_call" where
  "fetch_url_call module' url opts =
     \<lparr>call_url = url, url_username = hetzner_user module',
      url_password = hetzner_password module', force_basic_auth = True,
      call_data = http_data opts, call_headers = http_headers opts,
      call_method = http_method opts, call_timeout = http_timeout opts\<rparr>"

text \<open>\<^verbatim>\<open>'{1}'.format(info.get('status'))\<close>: the number, or \<^verbatim>\<open>None\<close>.\<close>

definition str_of_status :: "int option \<Rightarrow> string" where
  "str_of_status st = (case st of None \<Rightarrow> ''None'' | Some n \<Rightarrow> str_of_int n)"

definition fetch_url_json ::
  "(url_call \<Rightarrow> fetch_resp \<times> fetch_info) \<Rightarrow> (string \<Rightarrow> json option) \<Rightarrow> credentials \<Rightarrow> string
     \<Rightarrow> request_opts \<Rightarrow> failure + outcome" where
  "fetch_url_json fetch_url from_json module' url opts =
     (let (resp, info) = fetch_url (fetch_url_call module' url opts);
          content = (case resp of RespOpen c \<Rightarrow> Some c | _ \<Rightarrow> info_body info)
      in if content = None \<or> content = Some [] then
           (if allow_empty_result opts
                \<and> (case info_status info of None \<Rightarrow> False
                    | Some st \<Rightarrow> st \<in> set (allowed_empty_result_status_codes opts))
            then Inr (None, None)
            else Inl (FailJson (''Cannot retrieve content from '' @ url
                                  @ '', HTTP status code '' @ str_of_status (info_status info))
                        None))
         else
           (case from_json (the content) of
              None \<Rightarrow> Inl (FailJson (''Cannot decode content retrieved from '' @ url) None)
            | Some result \<Rightarrow>
                (let raise_error =
                       (case subscript result ''error'' of Inl x \<Rightarrow> Inl (Uncaught x)
                        | Inr err \<Rightarrow>
                            (case format_error_msg err of Inl x \<Rightarrow> Inl (Uncaught x)
                             | Inr msg \<Rightarrow> Inl (FailJson msg (Some err))))
                 in case contains_error result of
                      Inl x \<Rightarrow> Inl (Uncaught x)
                    | Inr False \<Rightarrow> Inr (Some result, None)
                    | Inr True \<Rightarrow>
                        if accept_errors opts \<noteq> [] then
                          (case subscript result ''error'' of Inl x \<Rightarrow> Inl (Uncaught x)
                           | Inr err \<Rightarrow>
                               (case subscript err ''code'' of Inl x \<Rightarrow> Inl (Uncaught x)
                                | Inr c \<Rightarrow>
                                    if code_in c (accept_errors opts)
                                    then Inr (Some result, Some c)
                                    else raise_error))
                        else raise_error)))"

section \<open>Retry-until-done poller\<close>

text \<open>
  The poller reads the clock, sleeps and sends requests. The world it runs in is the clock
  (seconds, as a real number) and the trace of what happened so far: a sleep with the time
  it started and its length, a request with the time it started and its outcome.
  \<^verbatim>\<open>time.sleep(d)\<close> moves the clock by \<open>d\<close>; a request moves it by the latency the
  environment gives it; reading the clock and calling the predicate take no time. The
  predicate \<^verbatim>\<open>check_done_callback\<close> is a total function without effects.
\<close>

datatype event =
    Sleep real real
  | Request real "failure + outcome"

record world =
  clock :: real
  trace :: "event list"

text \<open>
  The environment of a poll: what \<^verbatim>\<open>fetch_url\<close> returns in a given world for a given call,
  with the time the call takes, and the JSON decoder \<^verbatim>\<open>module.from_json\<close>.
\<close>

record env =
  env_fetch_url :: "world \<Rightarrow> url_call \<Rightarrow> (fetch_resp \<times> fetch_info) \<times> real"
  env_from_json :: "string \<Rightarrow> json option"

definition time_time :: "world \<Rightarrow> real" where
  "time_time w = clock w"

definition time_sleep :: "real \<Rightarrow> world \<Rightarrow> world" where
  "time_sleep d w = w\<lparr>clock := clock w + d, trace := trace w @ [Sleep (clock w) d]\<rparr>"

text \<open>One call \<^verbatim>\<open>fetch_url_json(module, url, **kwargs)\<close> in a world.\<close>

definition request :: "env \<Rightarrow> credentials \<Rightarrow> string \<Rightarrow> request_opts \<Rightarrow> world
    \<Rightarrow> (failure + outcome) \<times> world" where
  "request E module' url kwargs w =
     (let out = fetch_url_json (\<lambda>c. fst (env_fetch_url E w c)) (env_from_json E) module' url kwargs;
          latency = snd (env_fetch_url E w (fetch_url_call module' url kwargs))
      in (out, w\<lparr>clock := clock w + latency, trace := trace w @ [Request (clock w) out]\<rparr>))"

text \<open>The \<^verbatim>\<open>while True\<close> loop; a run that never leaves it is \<open>None\<close>.\<close>

partial_function (option) retry_loop ::
  "env \<Rightarrow> credentials \<Rightarrow> string \<Rightarrow> (json option \<Rightarrow> json option \<Rightarrow> bool) \<Rightarrow> real \<Rightarrow> real
     \<Rightarrow> request_opts \<Rightarrow> real \<Rightarrow> world \<Rightarrow> ((failure + outcome) \<times> world) option" where
  "retry_loop E module' url check_done_callback check_done_delay check_done_timeout kwargs
       start_time w =
     (let elapsed = time_time w - start_time;
          left_time = check_done_timeout - elapsed;
          w1 = time_sleep (max (min check_done_delay left_time) 0) w;
          (r, w2) = request E module' url kwargs w1
      in case r of
           Inl f \<Rightarrow> Some (Inl f, w2)
         | Inr (result, error) \<Rightarrow>
             if check_done_callback result error then Some (Inr (result, error), w2)
             else if left_time < check_done_delay
             then Some (Inl (CheckDoneTimeoutException result error), w2)
             else retry_loop E module' url check_done_callback check_done_delay
                    check_done_timeout kwargs start_time w2)"

declare retry_loop.simps [code]

definition fetch_url_json_with_retries ::
  "env \<Rightarrow> credentials \<Rightarrow> string \<Rightarrow> (json option \<Rightarrow> json option \<Rightarrow> bool) \<Rightarrow> real \<Rightarrow> real
     \<Rightarrow> bool \<Rightarrow> request_opts \<Rightarrow> world \<Rightarrow> ((failure + outcome) \<times> world) option" where
  "fetch_url_json_with_retries E module' url check_done_callback check_done_delay
       check_done_timeout skip_first kwargs w =
     (let start_time = time_time w
      in if \<not> skip_first then
           (let (r, w1) = request E module' url kwargs w
            in case r of
                 Inl f \<Rightarrow> Some (Inl f, w1)
               | Inr (result, error) \<Rightarrow>
                   if check_done_callback result error then Some (Inr (result, error), w1)
                   else retry_loop E module' url check_done_callback check_done_delay
                          check_done_timeout kwargs start_time w1)
         else retry_loop E module' url check_done_callback check_done_delay
                check_done_timeout kwargs start_time w)"

section \<open>Traces and sample inputs\<close>

text \<open>The outcomes of the requests in a trace, and the times they started, in order.\<close>

fun request_outcomes :: "event list \<Rightarrow> (failure + outcome) list" where
  "request_outcomes [] = []"
| "request_outcomes (Sleep t d # es) = request_outcomes es"
| "request_outcomes (Request t out # es) = out # request_outcomes es"

fun request_times :: "event list \<Rightarrow> real list" where
  "request_times [] = []"
| "request_times (Sleep t d # es) = request_times es"
| "request_times (Request t out # es) = t # request_times es"

text \<open>
  A request outcome after which the poller goes on: the request returned and the predicate
  is not satisfied.
\<close>

definition unsatisfied :: "(json option \<Rightarrow> json option \<Rightarrow> bool) \<Rightarrow> failure + outcome \<Rightarrow> bool" where
  "unsatisfied check_done_callback out =
     (case out of Inl f \<Rightarrow> False | Inr (result, error) \<Rightarrow> \<not> check_done_callback result error)"

text \<open>
  What the poller returns when a request with the given outcome is its last one: the
  failure of the request, its result when the predicate is satisfied, and the timeout
  exception otherwise.
\<close>

definition final_result :: "(json option \<Rightarrow> json option \<Rightarrow> bool) \<Rightarrow> failure + outcome \<Rightarrow> failure + outcome" where
  "final_result check_done_callback out =
     (case out of
        Inl f \<Rightarrow> Inl f
      | Inr (result, error) \<Rightarrow>
          if check_done_callback result error then Inr (result, error)
          else Inl (CheckDoneTimeoutException result error))"

text \<open>The defaults of the keyword arguments in \<^verbatim>\<open>robot.py\<close>.\<close>

definition default_opts :: request_opts where
  "default_opts =
     \<lparr>http_method = ''GET'', http_timeout = 10, http_data = None, http_headers = [],
      accept_errors = [], allow_empty_result = False,
      allowed_empty_result_status_codes = [200, 204]\<rparr>"

definition sample_credentials :: credentials where
  "sample_credentials = \<lparr>hetzner_user = ''user'', hetzner_password = ''secret''\<rparr>"

definition sample_url :: string where
  "sample_url = ''https://robot-ws.your-server.de/server''"

text \<open>A decoded body with an API error, and a decoder that returns it for every body.\<close>

definition sample_error :: json where
  "sample_error =
     JObj [(''status'', JInt 404), (''code'', JStr ''SERVER_NOT_FOUND''),
           (''message'', JStr ''server not found'')]"

definition sample_error_body :: json where
  "sample_error_body = JObj [(''error'', sample_error)]"

definition loads_error :: "string \<Rightarrow> json option" where
  "loads_error content = Some sample_error_body"

text \<open>
  An environment whose every request returns the body \<^verbatim>\<open>{}\<close> with status 200 at once, and
  the two constant predicates.
\<close>

definition instant_env :: env where
  "instant_env =
     \<lparr>env_fetch_url =
        (\<lambda>w c. ((RespOpen ''{}'', \<lparr>info_status = Some 200, info_body = None\<rparr>), 0)),
      env_from_json = (\<lambda>content. Some (JObj []))\<rparr>"

definition never_done :: "json option \<Rightarrow> json option \<Rightarrow> bool" where
  "never_done result error = False"

definition always_done :: "json option \<Rightarrow> json option \<Rightarrow> bool" where
  "always_done result error = True"

text \<open>An environment whose every request fails: the body is not JSON.\<close>

definition broken_env :: env where
  "broken_env =
     \<lparr>env_fetch_url =
        (\<lambda>w c. ((RespOpen ''not json'', \<lparr>info_status = Some 200, info_body = None\<rparr>), 0)),
      env_from_json = (\<lambda>content. None)\<rparr>"

definition world0 :: world where
  "world0 = \<lparr>clock = 0, trace = []\<rparr>"

section \<open>Properties of the error formatter\<close>

lemma py_str_strings: "py_str (format_list (JList (map JStr xs))) = render_strings xs"
  by (simp add: py_str_def render_strings_def comp_def)

lemma format_error_msg_dict:
  assumes "map_of kvs ''status'' = Some s" "map_of kvs ''code'' = Some c"
    "map_of kvs ''message'' = Some m"
  shows "format_error_msg (JObj kvs) =
     Inr (''Request failed: '' @ py_str s @ '' '' @ py_str c @ '' ('' @ py_str m @ '')''
       @ (if truthy (dict_get (JObj kvs) ''missing'')
          then ''. Missing input parameters: '' @ py_str (format_list (dict_get (JObj kvs) ''missing''))
          else [])
       @ (if truthy (dict_get (JObj kvs) ''invalid'')
          then ''. Invalid input parameters: '' @ py_str (format_list (dict_get (JObj kvs) ''invalid''))
          else [])
       @ (if dict_get (JObj kvs) ''max_request'' \<noteq> JNull
          then ''. Maximum allowed requests: '' @ py_str (dict_get (JObj kvs) ''max_request'')
          else [])
       @ (if dict_get (JObj kvs) ''interval'' \<noteq> JNull
          then ''. Time interval in seconds: '' @ py_str (dict_get (JObj kvs) ''interval'')
          else []))"
  using assms by (simp add: format_error_msg_def subscript_def Let_def)

lemma api_error_fields:
  "dict_get (api_error_json e) ''missing'' = (case missing e of None \<Rightarrow> JNull | Some xs \<Rightarrow> JList (map JStr xs))"
  "dict_get (api_error_json e) ''invalid'' = (case invalid e of None \<Rightarrow> JNull | Some xs \<Rightarrow> JList (map JStr xs))"
  "dict_get (api_error_json e) ''max_request'' = (case max_request e of None \<Rightarrow> JNull | Some n \<Rightarrow> JInt n)"
  "dict_get (api_error_json e) ''interval'' = (case interval e of None \<Rightarrow> JNull | Some n \<Rightarrow> JInt n)"
  by (simp_all add: dict_get_def api_error_json_def opt_field_def split: option.splits)

lemma strings_clause:
  "(if truthy (case v of None \<Rightarrow> JNull | Some xs \<Rightarrow> JList (map JStr xs))
    then pre @ py_str (format_list (case v of None \<Rightarrow> JNull | Some xs \<Rightarrow> JList (map JStr xs)))
    else []) = (case nonempty v of None \<Rightarrow> [] | Some xs \<Rightarrow> pre @ render_strings xs)"
  by (cases v) (simp_all add: nonempty_def truthy_def py_str_strings del: format_list.simps split: list.splits)

lemma int_clause:
  "(if (case v of None \<Rightarrow> JNull | Some n \<Rightarrow> JInt n) \<noteq> JNull
    then pre @ py_str (case v of None \<Rightarrow> JNull | Some n \<Rightarrow> JInt n)
    else []) = (case v of None \<Rightarrow> [] | Some n \<Rightarrow> pre @ str_of_int n)"
  by (cases v) (simp_all add: py_str_def)

lemma format_error_msg_api_error:
  "format_error_msg (api_error_json e) =
   Inr (format_error_message_spec (e\<lparr>missing := nonempty (missing e), invalid := nonempty (invalid e)\<rparr>))"
proof -
  obtain kvs where kvs: "api_error_json e = JObj kvs"
    "map_of kvs ''status'' = Some (JInt (status e))"
    "map_of kvs ''code'' = Some (JStr (code e))"
    "map_of kvs ''message'' = Some (JStr (message e))"
    by (simp add: api_error_json_def)
  have fm: "format_error_msg (api_error_json e) =
     Inr (''Request failed: '' @ py_str (JInt (status e)) @ '' '' @ py_str (JStr (code e)) @ '' ('' @ py_str (JStr (message e)) @ '')''
       @ (if truthy (dict_get (api_error_json e) ''missing'')
          then ''. Missing input parameters: '' @ py_str (format_list (dict_get (api_error_json e) ''missing''))
          else [])
       @ (if truthy (dict_get (api_error_json e) ''invalid'')
          then ''. Invalid input parameters: '' @ py_str (format_list (dict_get (api_error_json e) ''invalid''))
          else [])
       @ (if dict_get (api_error_json e) ''max_request'' \<noteq> JNull
          then ''. Maximum allowed requests: '' @ py_str (dict_get (api_error_json e) ''max_request'')
          else [])
       @ (if dict_get (api_error_json e) ''interval'' \<noteq> JNull
          then ''. Time interval in seconds: '' @ py_str (dict_get (api_error_json e) ''interval'')
          else []))"
    using format_error_msg_dict [OF kvs(2-4)] by (simp only: kvs(1))
  show ?thesis
    unfolding fm api_error_fields strings_clause int_clause
    by (simp add: format_error_message_spec_def py_str_def)
qed

text \<open>
  Claim C7, as the code has it. On the wire form of every ApiError the formatter returns
  the head \<^verbatim>\<open>Request failed: {status} {code} ({message})\<close> followed, in the order missing,
  invalid, max_request, interval, by the clauses of the specification, where a missing or
  invalid list that is set but empty gets no clause (the code tests these two fields for
  truth, the other two for \<^verbatim>\<open>None\<close>). An error with only status, code and message set has no
  trailing clause, and \<^verbatim>\<open>missing = ["a", "b"]\<close> gives \<^verbatim>\<open>. Missing input parameters: ['a', 'b']\<close>
  right after the head.
\<close>

theorem format_error_msg_clauses:
  "format_error_msg (api_error_json e) =
     Inr (format_error_message_spec
            (e\<lparr>missing := nonempty (missing e), invalid := nonempty (invalid e)\<rparr>))
   \<and> (missing e = None \<and> invalid e = None \<and> max_request e = None \<and> interval e = None \<longrightarrow>
        format_error_msg (api_error_json e) =
          Inr (''Request failed: '' @ str_of_int (status e) @ '' '' @ code e
                 @ '' ('' @ message e @ '')''))
   \<and> (missing e = Some [''a'', ''b''] \<longrightarrow>
        (\<exists>rest. format_error_msg (api_error_json e) =
          Inr (''Request failed: '' @ str_of_int (status e) @ '' '' @ code e
                 @ '' ('' @ message e @ '')'' @ ''. Missing input parameters: ['a', 'b']'' @ rest)))"
  by (simp add: format_error_msg_api_error format_error_message_spec_def nonempty_def
      render_strings_def repr_str_def repr_char_def printable_def Let_def)

theorem format_error_msg_clauses_witness:
  "format_error_msg (api_error_json \<lparr>status = 404, code = ''SERVER_NOT_FOUND'', message = ''server not found'', missing = None, invalid = None, max_request = None, interval = None\<rparr>) = Inr ''Request failed: 404 SERVER_NOT_FOUND (server not found)''
 \<and> (\<exists>rest. format_error_msg (api_error_json \<lparr>status = 400, code = ''INVALID_INPUT'', message = ''invalid input'', missing = Some [''a'', ''b''], invalid = None, max_request = None, interval = None\<rparr>) = Inr (''Request failed: 400 INVALID_INPUT (invalid input). Missing input parameters: ['a', 'b']'' @ rest))"
  using format_error_msg_clauses [of "\<lparr>status = 404, code = ''SERVER_NOT_FOUND'', message = ''server not found'', missing = None, invalid = None, max_request = None, interval = None\<rparr>", THEN conjunct2, THEN conjunct1]
   format_error_msg_clauses [of "\<lparr>status = 400, code = ''INVALID_INPUT'', message = ''invalid input'', missing = Some [''a'', ''b''], invalid = None, max_request = None, interval = None\<rparr>", THEN conjunct2, THEN conjunct2]
  by (simp add: str_of_int_def str_of_nat.simps digit_char_def)

text \<open>
  The claim as worded (a clause for every field that is present) fails on an error whose
  missing list is present and empty: the code prints no clause for it.
\<close>

theorem format_error_msg_empty_missing_counterexample:
  "format_error_msg (api_error_json \<lparr>status = 400, code = ''INVALID_INPUT'', message = ''invalid input'', missing = Some [], invalid = None, max_request = None, interval = None\<rparr>)
  \<noteq> Inr (format_error_message_spec \<lparr>status = 400, code = ''INVALID_INPUT'', message = ''invalid input'', missing = Some [], invalid = None, max_request = None, interval = None\<rparr>)"
  by (simp add: format_error_msg_api_error format_error_message_spec_def nonempty_def render_strings_def)

text \<open>
  Claim C8. For every error dictionary with status, code and message: when max_request is
  the integer 0 the message contains \<^verbatim>\<open>. Maximum allowed requests: 0\<close>, and when interval is
  the integer 0 it contains \<^verbatim>\<open>. Time interval in seconds: 0\<close>; the two clauses are gated on
  the field being set, not on its truth value.
\<close>

theorem format_error_msg_zero_limits:
  assumes "map_of kvs ''status'' = Some s" "map_of kvs ''code'' = Some c"
    "map_of kvs ''message'' = Some m"
  shows "\<exists>msg. format_error_msg (JObj kvs) = Inr msg
     \<and> (map_of kvs ''max_request'' = Some (JInt 0) \<longrightarrow> sublist ''. Maximum allowed requests: 0'' msg)
     \<and> (map_of kvs ''interval'' = Some (JInt 0) \<longrightarrow> sublist ''. Time interval in seconds: 0'' msg)"
proof -
  define A where "A = ''Request failed: '' @ py_str s @ '' '' @ py_str c @ '' ('' @ py_str m @ '')''
       @ (if truthy (dict_get (JObj kvs) ''missing'')
          then ''. Missing input parameters: '' @ py_str (format_list (dict_get (JObj kvs) ''missing''))
          else [])
       @ (if truthy (dict_get (JObj kvs) ''invalid'')
          then ''. Invalid input parameters: '' @ py_str (format_list (dict_get (JObj kvs) ''invalid''))
          else [])"
  define D where "D = (if dict_get (JObj kvs) ''max_request'' \<noteq> JNull
          then ''. Maximum allowed requests: '' @ py_str (dict_get (JObj kvs) ''max_request'')
          else [])"
  define E where "E = (if dict_get (JObj kvs) ''interval'' \<noteq> JNull
          then ''. Time interval in seconds: '' @ py_str (dict_get (JObj kvs) ''interval'')
          else [])"
  have msg: "format_error_msg (JObj kvs) = Inr (A @ D @ E)"
    unfolding A_def D_def E_def format_error_msg_dict [OF assms] by simp
  have z: "py_str (JInt 0) = ''0''"
    by (simp add: py_str_def str_of_int_def str_of_nat.simps digit_char_def)
  have d: "sublist ''. Maximum allowed requests: 0'' (A @ D @ E)"
    if "map_of kvs ''max_request'' = Some (JInt 0)"
  proof -
    have "D = ''. Maximum allowed requests: 0''"
      using that by (simp add: D_def dict_get_def z)
    then show ?thesis
      using sublist_appendI [of D A E] by simp
  qed
  have e: "sublist ''. Time interval in seconds: 0'' (A @ D @ E)"
    if "map_of kvs ''interval'' = Some (JInt 0)"
  proof -
    have "E = ''. Time interval in seconds: 0''"
      using that by (simp add: E_def dict_get_def z)
    then show ?thesis
      using sublist_appendI [of E "A @ D" "[]"] by simp
  qed
  show ?thesis
    using msg d e by blast
qed

theorem format_error_msg_zero_limits_witness:
  "\<exists>msg. format_error_msg (JObj [(''status'', JInt 403), (''code'', JStr ''RATE_LIMIT_EXCEEDED''), (''message'', JStr ''rate limit exceeded''), (''max_request'', JInt 0), (''interval'', JInt 0)]) = Inr msg
   \<and> sublist ''. Maximum allowed requests: 0'' msg \<and> sublist ''. Time interval in seconds: 0'' msg"
  using format_error_msg_zero_limits [of "[(''status'', JInt 403), (''code'', JStr ''RATE_LIMIT_EXCEEDED''), (''message'', JStr ''rate limit exceeded''), (''max_request'', JInt 0), (''interval'', JInt 0)]" "JInt 403" "JStr ''RATE_LIMIT_EXCEEDED''" "JStr ''rate limit exceeded''"]
  by simp

section \<open>Properties of the form encoding helper\<close>

lemma digit_char_inj: "d < 10 \<Longrightarrow> e < 10 \<Longrightarrow> digit_char d = digit_char e \<Longrightarrow> d = e"
  by (simp add: digit_char_def nth_eq_iff_index_eq)

lemma str_of_nat_nonempty: "str_of_nat n \<noteq> []"
  by (subst str_of_nat.simps) simp

lemma str_of_nat_inj: "str_of_nat n = str_of_nat m \<Longrightarrow> n = m"
proof (induction n arbitrary: m rule: str_of_nat.induct)
  case (1 n)
  show ?case
  proof (cases "n < 10")
    case True
    show ?thesis
    proof (cases "m < 10")
      case True
      with \<open>n < 10\<close> "1.prems" show ?thesis
        by (simp add: str_of_nat.simps [of n] str_of_nat.simps [of m] digit_char_inj)
    next
      case False
      with \<open>n < 10\<close> "1.prems" str_of_nat_nonempty [of "m div 10"] show ?thesis
        by (simp add: str_of_nat.simps [of n] str_of_nat.simps [of m])
    qed
  next
    case False
    show ?thesis
    proof (cases "m < 10")
      case True
      with \<open>\<not> n < 10\<close> "1.prems" str_of_nat_nonempty [of "n div 10"] show ?thesis
        by (simp add: str_of_nat.simps [of n] str_of_nat.simps [of m])
    next
      case mf: False
      from False mf "1.prems" have eq: "str_of_nat (n div 10) = str_of_nat (m div 10)"
        and dg: "digit_char (n mod 10) = digit_char (m mod 10)"
        by (simp_all add: str_of_nat.simps [of n] str_of_nat.simps [of m])
      from "1.IH" [OF False eq] have "n div 10 = m div 10" .
      moreover from dg have "n mod 10 = m mod 10"
        by (simp add: digit_char_inj)
      ultimately show ?thesis
        by (metis div_mult_mod_eq)
    qed
  qed
qed

lemma form_key_inj: "key @ ''['' @ str_of_nat i @ '']'' = key @ ''['' @ str_of_nat j @ '']'' \<longleftrightarrow> i = j"
  using str_of_nat_inj by auto


lemma form_pairs_fst:
  "map fst (map (\<lambda>(i, x). (key @ ''['' @ str_of_nat i @ '']'', x)) (enumerate_list values)) =
   map (\<lambda>i. key @ ''['' @ str_of_nat i @ '']'') [0..<length values]"
  unfolding enumerate_list_def
  by (rule nth_equalityI) simp_all

lemma form_pairs_distinct:
  "distinct (map fst (map (\<lambda>(i, x). (key @ ''['' @ str_of_nat i @ '']'', x)) (enumerate_list values)))"
  unfolding form_pairs_fst
  using str_of_nat_inj by (auto simp: distinct_map inj_on_def)

lemma form_dict_lookup:
  assumes "i < length values"
  shows "dict_of_pairs (map (\<lambda>(i, x). (key @ ''['' @ str_of_nat i @ '']'', x)) (enumerate_list values))
           (key @ ''['' @ str_of_nat i @ '']'') = Some (values ! i)"
proof -
  let ?ps = "map (\<lambda>(i, x). (key @ ''['' @ str_of_nat i @ '']'', x)) (enumerate_list values)"
  have "?ps ! i = (key @ ''['' @ str_of_nat i @ '']'', values ! i)"
    using assms by (simp add: enumerate_list_def)
  moreover have "i < length ?ps"
    using assms by (simp add: enumerate_list_def)
  ultimately have "(key @ ''['' @ str_of_nat i @ '']'', values ! i) \<in> set (rev ?ps)"
    by (metis nth_mem set_rev)
  moreover have "distinct (map fst (rev ?ps))"
    using form_pairs_distinct [of key "values"] by (simp only: rev_map [symmetric] distinct_rev)
  ultimately have "map_of (rev ?ps) (key @ ''['' @ str_of_nat i @ '']'') = Some (values ! i)"
    by (rule map_of_is_SomeI [rotated])
  then show ?thesis
    by (simp only: dict_of_pairs_def)
qed

lemma form_dict_dom:
  "dom (dict_of_pairs (map (\<lambda>(i, x). (key @ ''['' @ str_of_nat i @ '']'', x)) (enumerate_list values)))
     = (\<lambda>i. key @ ''['' @ str_of_nat i @ '']'') ` {..<length values}"
proof -
  let ?ps = "map (\<lambda>(i, x). (key @ ''['' @ str_of_nat i @ '']'', x)) (enumerate_list values)"
  have "dom (dict_of_pairs ?ps) = set (map fst ?ps)"
    by (simp only: dict_of_pairs_def dom_map_of_conv_image_fst set_rev set_map)
  also have "\<dots> = (\<lambda>i. key @ ''['' @ str_of_nat i @ '']'') ` {..<length values}"
    unfolding form_pairs_fst by (simp add: lessThan_atLeast0)
  finally show ?thesis .
qed

text \<open>
  Claim C9. For every key and every non-empty list of values: a list of exactly one
  element \<open>v\<close> gives the dictionary with the single entry \<^verbatim>\<open>key[]\<close> for \<open>v\<close>; any longer list
  gives the dictionary that maps \<^verbatim>\<open>key[i]\<close> to the \<open>i\<close>-th value for every index \<open>i\<close> of the
  list, and has no other key.
\<close>

theorem form_dict_from_list:
  assumes "values \<noteq> []"
  shows "(length values = 1 \<longrightarrow>
            get_x_www_form_urlenconded_dict_from_list key values = [key @ ''[]'' \<mapsto> hd values])
       \<and> (length values \<noteq> 1 \<longrightarrow>
            (\<forall>i<length values.
               get_x_www_form_urlenconded_dict_from_list key values
                 (key @ ''['' @ str_of_nat i @ '']'') = Some (values ! i))
            \<and> dom (get_x_www_form_urlenconded_dict_from_list key values)
                = (\<lambda>i. key @ ''['' @ str_of_nat i @ '']'') ` {..<length values})"
proof (cases "length values = 1")
  case True
  with assms show ?thesis
    by (simp add: get_x_www_form_urlenconded_dict_from_list_def hd_conv_nth)
next
  case False
  then have "get_x_www_form_urlenconded_dict_from_list key values =
      dict_of_pairs (map (\<lambda>(i, x). (key @ ''['' @ str_of_nat i @ '']'', x)) (enumerate_list values))"
    by (simp add: get_x_www_form_urlenconded_dict_from_list_def)
  with False show ?thesis
    using form_dict_lookup [of _ "values" key] form_dict_dom [of key "values"] by simp
qed

theorem form_dict_from_list_witness:
  "get_x_www_form_urlenconded_dict_from_list ''ip'' [''1.2.3.4''] = [''ip[]'' \<mapsto> ''1.2.3.4'']
   \<and> get_x_www_form_urlenconded_dict_from_list ''ip'' [''1.2.3.4'', ''5.6.7.8''] ''ip[0]'' = Some ''1.2.3.4''
   \<and> get_x_www_form_urlenconded_dict_from_list ''ip'' [''1.2.3.4'', ''5.6.7.8''] ''ip[1]'' = Some ''5.6.7.8''
   \<and> dom (get_x_www_form_urlenconded_dict_from_list ''ip'' [''1.2.3.4'', ''5.6.7.8'']) = {''ip[0]'', ''ip[1]''}"
proof -
  have one: "[''1.2.3.4''] \<noteq> []" and two: "[''1.2.3.4'', ''5.6.7.8''] \<noteq> []"
    by simp_all
  have s0: "str_of_nat 0 = ''0''" and s1: "str_of_nat 1 = ''1''"
    by (simp_all add: str_of_nat.simps digit_char_def)
  have ivl: "{..<Suc (Suc 0)} = {0, 1}"
    by auto
  from form_dict_from_list [OF one, of "''ip''"] form_dict_from_list [OF two, of "''ip''"] s0 s1 show ?thesis
    by (simp add: All_less_Suc ivl)
qed

section \<open>Properties of the request executors\<close>

lemma format_error_msg_total:
  assumes "map_of ekvs ''status'' = Some s" "map_of ekvs ''code'' = Some c"
    "map_of ekvs ''message'' = Some m"
  shows "\<exists>msg. format_error_msg (JObj ekvs) = Inr msg"
  using format_error_msg_dict [OF assms] by blast

lemma code_in_Nil: "code_in c [] = False"
  by (simp add: code_in_def split: json.splits)

lemma plugin_body_path:
  assumes "open_url (open_url_call plugin url opts tmpl) = Response st content
         \<or> open_url (open_url_call plugin url opts tmpl) = HTTPError_body st content"
    and "content \<noteq> []" "json_loads content = Some (JObj kvs)"
    "map_of kvs ''error'' = Some err" "subscript err ''code'' = Inr c"
    "format_error_msg err = Inr msg"
  shows "plugin_open_url_json open_url json_loads plugin url opts tmpl =
     (if code_in c (accept_errors opts) then Inr (Some (JObj kvs), Some c)
      else Inl (PluginException msg))"
proof -
  have se: "subscript (JObj kvs) ''error'' = Inr err"
    and ce: "contains_error (JObj kvs) = Inr True"
    using assms(4) by (simp_all add: subscript_def contains_error_def)
  from assms(1) show ?thesis
    by (cases "accept_errors opts = []")
       (auto simp: plugin_open_url_json_def se ce assms(2,3,5,6) code_in_Nil)
qed

lemma fetch_body_path:
  assumes "fetch_url (fetch_url_call module' url opts) = (resp, info)"
    and "(case resp of RespOpen b \<Rightarrow> Some b | _ \<Rightarrow> info_body info) = Some content"
    and "content \<noteq> []" "from_json content = Some (JObj kvs)"
    "map_of kvs ''error'' = Some err" "subscript err ''code'' = Inr c"
    "format_error_msg err = Inr msg"
  shows "fetch_url_json fetch_url from_json module' url opts =
     (if code_in c (accept_errors opts) then Inr (Some (JObj kvs), Some c)
      else Inl (FailJson msg (Some err)))"
proof -
  have se: "subscript (JObj kvs) ''error'' = Inr err"
    and ce: "contains_error (JObj kvs) = Inr True"
    using assms(5) by (simp_all add: subscript_def contains_error_def)
  show ?thesis
    by (cases "accept_errors opts = []")
       (simp_all add: fetch_url_json_def se ce assms(1,2,3,4,6,7) code_in_Nil)
qed

lemma plugin_empty_path:
  assumes "open_url (open_url_call plugin url opts tmpl) = Response st []
         \<or> open_url (open_url_call plugin url opts tmpl) = HTTPError_body st []
         \<or> open_url (open_url_call plugin url opts tmpl) = HTTPError_no_read st"
  shows "plugin_open_url_json open_url json_loads plugin url opts tmpl =
     (if allow_empty_result opts \<and> st \<in> set (allowed_empty_result_status_codes opts)
      then Inr (None, None)
      else Inl (PluginException (''Cannot retrieve content from '' @ url
                   @ '', HTTP status code '' @ str_of_int st)))"
  using assms by (auto simp: plugin_open_url_json_def)

lemma fetch_empty_path:
  assumes "fetch_url (fetch_url_call module' url opts) = (resp, info)"
    and "(case resp of RespOpen b \<Rightarrow> Some b | _ \<Rightarrow> info_body info) = None
       \<or> (case resp of RespOpen b \<Rightarrow> Some b | _ \<Rightarrow> info_body info) = Some []"
  shows "fetch_url_json fetch_url from_json module' url opts =
     (if allow_empty_result opts
         \<and> (\<exists>st. info_status info = Some st \<and> st \<in> set (allowed_empty_result_status_codes opts))
      then Inr (None, None)
      else Inl (FailJson (''Cannot retrieve content from '' @ url
                   @ '', HTTP status code '' @ str_of_status (info_status info)) None))"
  using assms by (auto simp: fetch_url_json_def split: option.splits)

lemma sample_error_msg:
  "format_error_msg sample_error = Inr ''Request failed: 404 SERVER_NOT_FOUND (server not found)''"
  by (simp add: sample_error_def format_error_msg_def subscript_def dict_get_def truthy_def
      py_str_def str_of_int_def str_of_nat.simps digit_char_def)

text \<open>
  Claim C4. Let the body be non-empty and decode to a dictionary whose \<^verbatim>\<open>error\<close> entry is a
  dictionary with status, code and message. Then the formatter returns a message for that
  error, and each executor returns the whole decoded body paired with the code when the
  code is in \<^verbatim>\<open>accept_errors\<close>, and otherwise fails with exactly that message
  (\<^verbatim>\<open>plugin_open_url_json\<close> by \<^verbatim>\<open>PluginException\<close>, \<^verbatim>\<open>fetch_url_json\<close> by \<^verbatim>\<open>fail_json\<close>, which
  also carries the error object).
\<close>

theorem accepted_error_or_api_failure:
  assumes "content \<noteq> []" "json_loads content = Some (JObj kvs)"
    "map_of kvs ''error'' = Some (JObj ekvs)"
    "map_of ekvs ''status'' = Some s" "map_of ekvs ''code'' = Some c"
    "map_of ekvs ''message'' = Some m"
  shows "\<exists>msg. format_error_msg (JObj ekvs) = Inr msg
     \<and> (open_url (open_url_call plugin url opts tmpl) = Response st content
          \<or> open_url (open_url_call plugin url opts tmpl) = HTTPError_body st content \<longrightarrow>
        plugin_open_url_json open_url json_loads plugin url opts tmpl =
          (if code_in c (accept_errors opts) then Inr (Some (JObj kvs), Some c)
           else Inl (PluginException msg)))
     \<and> (fetch_url (fetch_url_call module' url opts) = (resp, info)
          \<and> (case resp of RespOpen b \<Rightarrow> Some b | _ \<Rightarrow> info_body info) = Some content \<longrightarrow>
        fetch_url_json fetch_url json_loads module' url opts =
          (if code_in c (accept_errors opts) then Inr (Some (JObj kvs), Some c)
           else Inl (FailJson msg (Some (JObj ekvs)))))"
proof -
  obtain msg where msg: "format_error_msg (JObj ekvs) = Inr msg"
    using format_error_msg_total [OF assms(4-6)] by blast
  have c: "subscript (JObj ekvs) ''code'' = Inr c"
    using assms(5) by (simp add: subscript_def)
  have p: "plugin_open_url_json open_url json_loads plugin url opts tmpl =
          (if code_in c (accept_errors opts) then Inr (Some (JObj kvs), Some c)
           else Inl (PluginException msg))"
    if "open_url (open_url_call plugin url opts tmpl) = Response st content
          \<or> open_url (open_url_call plugin url opts tmpl) = HTTPError_body st content"
    using that assms(1-3) c msg by (rule plugin_body_path)
  have f: "fetch_url_json fetch_url json_loads module' url opts =
          (if code_in c (accept_errors opts) then Inr (Some (JObj kvs), Some c)
           else Inl (FailJson msg (Some (JObj ekvs))))"
    if "fetch_url (fetch_url_call module' url opts) = (resp, info)"
      "(case resp of RespOpen b \<Rightarrow> Some b | _ \<Rightarrow> info_body info) = Some content"
    using that assms(1-3) c msg by (rule fetch_body_path)
  show ?thesis
    using msg p f by blast
qed

theorem accepted_error_or_api_failure_witness:
  "plugin_open_url_json (\<lambda>c. Response 404 ''body'') loads_error sample_credentials sample_url
      (default_opts\<lparr>accept_errors := [''SERVER_NOT_FOUND'']\<rparr>) None
     = Inr (Some sample_error_body, Some (JStr ''SERVER_NOT_FOUND''))
   \<and> plugin_open_url_json (\<lambda>c. Response 404 ''body'') loads_error sample_credentials sample_url
      default_opts None
     = Inl (PluginException ''Request failed: 404 SERVER_NOT_FOUND (server not found)'')
   \<and> fetch_url_json (\<lambda>c. (RespOpen ''body'', \<lparr>info_status = Some 404, info_body = None\<rparr>))
      loads_error sample_credentials sample_url
      (default_opts\<lparr>accept_errors := [''SERVER_NOT_FOUND'']\<rparr>)
     = Inr (Some sample_error_body, Some (JStr ''SERVER_NOT_FOUND''))
   \<and> fetch_url_json (\<lambda>c. (RespOpen ''body'', \<lparr>info_status = Some 404, info_body = None\<rparr>))
      loads_error sample_credentials sample_url default_opts
     = Inl (FailJson ''Request failed: 404 SERVER_NOT_FOUND (server not found)''
              (Some sample_error))"
proof -
  let ?ekvs = "[(''status'', JInt 404), (''code'', JStr ''SERVER_NOT_FOUND''),
                (''message'', JStr ''server not found'')]"
  let ?kvs = "[(''error'', JObj ?ekvs)]"
  let ?acc = "default_opts\<lparr>accept_errors := [''SERVER_NOT_FOUND'']\<rparr>"
  let ?info = "\<lparr>info_status = Some 404, info_body = None\<rparr>"
  have h: "''body'' \<noteq> []" "loads_error ''body'' = Some (JObj ?kvs)"
    "map_of ?kvs ''error'' = Some (JObj ?ekvs)"
    "map_of ?ekvs ''status'' = Some (JInt 404)"
    "map_of ?ekvs ''code'' = Some (JStr ''SERVER_NOT_FOUND'')"
    "map_of ?ekvs ''message'' = Some (JStr ''server not found'')"
    by (simp_all add: loads_error_def sample_error_body_def sample_error_def)
  have m: "format_error_msg (JObj ?ekvs)
             = Inr ''Request failed: 404 SERVER_NOT_FOUND (server not found)''"
    using sample_error_msg by (simp add: sample_error_def)
  note th = accepted_error_or_api_failure [where content = "''body''"
      and json_loads = loads_error and kvs = ?kvs and ekvs = ?ekvs and s = "JInt 404"
      and c = "JStr ''SERVER_NOT_FOUND''" and m = "JStr ''server not found''"
      and st = 404 and plugin = sample_credentials
      and url = sample_url and tmpl = None and open_url = "\<lambda>c. Response 404 ''body''"
      and fetch_url = "\<lambda>c. (RespOpen ''body'', ?info)" and resp = "RespOpen ''body''"
      and info = ?info and module' = sample_credentials, OF h]
  from th [where opts = ?acc] th [where opts = default_opts] m show ?thesis
    by (simp add: code_in_def default_opts_def sample_error_body_def sample_error_def)
qed

text \<open>
  Claim C5. For every response with an empty body (for \<^verbatim>\<open>fetch_url_json\<close>: no body or an
  empty one): when \<^verbatim>\<open>allow_empty_result\<close> is true and the status is one of
  \<^verbatim>\<open>allowed_empty_result_status_codes\<close> the executor returns \<^verbatim>\<open>(None, None)\<close>; in every other
  case it fails with the message \<^verbatim>\<open>Cannot retrieve content from {url}, HTTP status code {status}\<close>.
\<close>

theorem empty_body_outcome:
  "(open_url (open_url_call plugin url opts tmpl) = Response st []
      \<or> open_url (open_url_call plugin url opts tmpl) = HTTPError_body st [] \<longrightarrow>
    plugin_open_url_json open_url json_loads plugin url opts tmpl =
      (if allow_empty_result opts \<and> st \<in> set (allowed_empty_result_status_codes opts)
       then Inr (None, None)
       else Inl (PluginException (''Cannot retrieve content from '' @ url
                    @ '', HTTP status code '' @ str_of_int st))))
   \<and> (fetch_url (fetch_url_call module' url opts) = (resp, info)
        \<and> ((case resp of RespOpen b \<Rightarrow> Some b | _ \<Rightarrow> info_body info) = None
           \<or> (case resp of RespOpen b \<Rightarrow> Some b | _ \<Rightarrow> info_body info) = Some []) \<longrightarrow>
      fetch_url_json fetch_url json_loads module' url opts =
        (if allow_empty_result opts
            \<and> (\<exists>n. info_status info = Some n \<and> n \<in> set (allowed_empty_result_status_codes opts))
         then Inr (None, None)
         else Inl (FailJson (''Cannot retrieve content from '' @ url
                      @ '', HTTP status code '' @ str_of_status (info_status info)) None)))"
  using plugin_empty_path [of open_url plugin url opts tmpl st json_loads]
    fetch_empty_path [of fetch_url module' url opts resp info json_loads]
  by blast

theorem empty_body_outcome_witness:
  "plugin_open_url_json (\<lambda>c. Response 204 []) loads_error sample_credentials sample_url
      (default_opts\<lparr>allow_empty_result := True\<rparr>) None = Inr (None, None)
   \<and> plugin_open_url_json (\<lambda>c. Response 204 []) loads_error sample_credentials sample_url
      default_opts None
     = Inl (PluginException
         ''Cannot retrieve content from https://robot-ws.your-server.de/server, HTTP status code 204'')
   \<and> fetch_url_json (\<lambda>c. (RespNone, \<lparr>info_status = Some 204, info_body = None\<rparr>)) loads_error
      sample_credentials sample_url (default_opts\<lparr>allow_empty_result := True\<rparr>)
     = Inr (None, None)
   \<and> fetch_url_json (\<lambda>c. (RespNone, \<lparr>info_status = Some 204, info_body = None\<rparr>)) loads_error
      sample_credentials sample_url default_opts
     = Inl (FailJson
         ''Cannot retrieve content from https://robot-ws.your-server.de/server, HTTP status code 204''
         None)"
proof -
  let ?info = "\<lparr>info_status = Some 204, info_body = None\<rparr>"
  have s: "str_of_int 204 = ''204''"
    by (simp add: str_of_int_def str_of_nat.simps digit_char_def)
  note th = empty_body_outcome [where st = 204 and plugin = sample_credentials
      and url = sample_url and tmpl = None and open_url = "\<lambda>c. Response 204 []"
      and fetch_url = "\<lambda>c. (RespNone, ?info)" and resp = RespNone
      and info = ?info and module' = sample_credentials and json_loads = loads_error]
  from th [where opts = "default_opts\<lparr>allow_empty_result := True\<rparr>"]
    th [where opts = default_opts] s show ?thesis
    by (simp add: default_opts_def sample_url_def str_of_status_def)
qed

text \<open>
  Claim C6, for \<^verbatim>\<open>plugin_open_url_json\<close>, the executor that handles transport exceptions
  itself. An \<^verbatim>\<open>HTTPError\<close> that carries a status and a readable body is processed exactly as
  the normal response with that status and body, whatever they are; any other exception
  makes the executor fail with the message
  \<^verbatim>\<open>Failed request to Hetzner Robot server endpoint {url}: {cause}\<close>.
\<close>

theorem transport_error_handling:
  "(open_url (open_url_call plugin url opts tmpl) = HTTPError_body st body \<longrightarrow>
      plugin_open_url_json open_url json_loads plugin url opts tmpl =
      plugin_open_url_json (\<lambda>c. Response st body) json_loads plugin url opts tmpl)
   \<and> (open_url (open_url_call plugin url opts tmpl) = Raised cause \<longrightarrow>
      plugin_open_url_json open_url json_loads plugin url opts tmpl =
      Inl (PluginException
             (''Failed request to Hetzner Robot server endpoint '' @ url @ '': '' @ cause)))"
  by (simp add: plugin_open_url_json_def)

theorem transport_error_handling_witness:
  "plugin_open_url_json (\<lambda>c. HTTPError_body 404 ''body'') loads_error sample_credentials
      sample_url default_opts None
     = plugin_open_url_json (\<lambda>c. Response 404 ''body'') loads_error sample_credentials
         sample_url default_opts None
   \<and> plugin_open_url_json (\<lambda>c. Raised ''timed out'') loads_error sample_credentials
      sample_url default_opts None
     = Inl (PluginException
         ''Failed request to Hetzner Robot server endpoint https://robot-ws.your-server.de/server: timed out'')"
  using transport_error_handling [where open_url = "\<lambda>c. HTTPError_body 404 ''body''"
      and st = 404 and body = "''body''" and json_loads = loads_error
      and plugin = sample_credentials and url = sample_url and opts = default_opts
      and tmpl = None, THEN conjunct1]
    transport_error_handling [where open_url = "\<lambda>c. Raised ''timed out''"
      and cause = "''timed out''" and json_loads = loads_error
      and plugin = sample_credentials and url = sample_url and opts = default_opts
      and tmpl = None, THEN conjunct2]
  by (simp add: sample_url_def)

text \<open>
  Claim C10. When \<^verbatim>\<open>open_url\<close> raises an \<^verbatim>\<open>HTTPError\<close> that has a status but whose body cannot
  be read, \<^verbatim>\<open>plugin_open_url_json\<close> goes on with an empty body: with \<^verbatim>\<open>allow_empty_result\<close>
  and the status among the allowed ones it returns \<^verbatim>\<open>(None, None)\<close>, otherwise it fails with
  the message \<^verbatim>\<open>Cannot retrieve content from {url}, HTTP status code {status}\<close>; the result is
  never the failure of a failed request, for any endpoint and cause.
\<close>

theorem unreadable_error_body_is_empty:
  assumes "open_url (open_url_call plugin url opts tmpl) = HTTPError_no_read st"
  shows "plugin_open_url_json open_url json_loads plugin url opts tmpl =
      (if allow_empty_result opts \<and> st \<in> set (allowed_empty_result_status_codes opts)
       then Inr (None, None)
       else Inl (PluginException (''Cannot retrieve content from '' @ url
                    @ '', HTTP status code '' @ str_of_int st)))
   \<and> plugin_open_url_json open_url json_loads plugin url opts tmpl \<noteq>
       Inl (PluginException
              (''Failed request to Hetzner Robot server endpoint '' @ url' @ '': '' @ cause))"
proof -
  have e: "plugin_open_url_json open_url json_loads plugin url opts tmpl =
      (if allow_empty_result opts \<and> st \<in> set (allowed_empty_result_status_codes opts)
       then Inr (None, None)
       else Inl (PluginException (''Cannot retrieve content from '' @ url
                    @ '', HTTP status code '' @ str_of_int st)))"
    using assms by (simp add: plugin_empty_path)
  show ?thesis
    unfolding e by simp
qed

theorem unreadable_error_body_is_empty_witness:
  "plugin_open_url_json (\<lambda>c. HTTPError_no_read 204) loads_error sample_credentials sample_url
      (default_opts\<lparr>allow_empty_result := True\<rparr>) None = Inr (None, None)
   \<and> plugin_open_url_json (\<lambda>c. HTTPError_no_read 500) loads_error sample_credentials sample_url
      (default_opts\<lparr>allow_empty_result := True\<rparr>) None
     = Inl (PluginException
         ''Cannot retrieve content from https://robot-ws.your-server.de/server, HTTP status code 500'')"
proof -
  have a: "(\<lambda>c. HTTPError_no_read 204) (open_url_call sample_credentials sample_url
              (default_opts\<lparr>allow_empty_result := True\<rparr>) None) = HTTPError_no_read 204"
    and b: "(\<lambda>c. HTTPError_no_read 500) (open_url_call sample_credentials sample_url
              (default_opts\<lparr>allow_empty_result := True\<rparr>) None) = HTTPError_no_read 500"
    by simp_all
  have s: "str_of_int 500 = ''500''"
    by (simp add: str_of_int_def str_of_nat.simps digit_char_def)
  from unreadable_error_body_is_empty [OF a, of loads_error]
    unreadable_error_body_is_empty [OF b, of loads_error] s show ?thesis
    by (simp add: default_opts_def sample_url_def)
qed

section \<open>Properties of the poller\<close>

lemma request_trace:
  assumes "request E m url kw w = (r, w2)"
  shows "trace w2 = trace w @ [Request (clock w) r]"
  using assms by (auto simp: request_def Let_def)

lemma request_outcomes_append:
  "request_outcomes (xs @ ys) = request_outcomes xs @ request_outcomes ys"
  by (induction xs rule: request_outcomes.induct) simp_all

lemma retry_loop_shape:
  assumes "retry_loop E m url cb d t kw s w = Some y"
  shows "\<exists>new pre out. trace (snd y) = trace w @ new
           \<and> request_outcomes new = pre @ [out]
           \<and> (\<forall>x\<in>set pre. unsatisfied cb x)
           \<and> fst y = final_result cb out"
proof -
  let ?P = "\<lambda>(E::env) (m::credentials) (url::string) cb (d::real) (t::real)
      (kw::request_opts) (s::real) (w::world) (y::(failure + outcome) \<times> world).
        \<exists>new pre out. trace (snd y) = trace w @ new
           \<and> request_outcomes new = pre @ [out]
           \<and> (\<forall>x\<in>set pre. unsatisfied cb x)
           \<and> fst y = final_result cb out"
  have "?P E m url cb d t kw s w y"
  proof (rule retry_loop.raw_induct [where P = ?P, OF _ assms], goal_cases)
  case (1 rl E m url cb d t kw s w y)
  note IH = "1"(1) and prems = "1"(2)
  define w1 where "w1 = time_sleep (max (min d (t - (time_time w - s))) 0) w"
  obtain r w2 where rq: "request E m url kw w1 = (r, w2)"
    by (cases "request E m url kw w1")
  have tr: "trace w2 = trace w @ [Sleep (clock w) (max (min d (t - (time_time w - s))) 0), Request (clock w1) r]"
    using request_trace [OF rq] by (simp add: w1_def time_sleep_def)
  note step = prems [unfolded Let_def, folded w1_def, unfolded rq]
  show ?case
  proof (cases "unsatisfied cb r \<and> \<not> t - (time_time w - s) < d")
    case True
    then obtain res err where r: "r = Inr (res, err)" and ncb: "\<not> cb res err"
      by (auto simp: unsatisfied_def split: sum.splits)
    from step True have "rl E m url cb d t kw s w2 = Some y"
      by (simp add: r ncb)
    from IH [OF this] obtain new pre out where
      n: "trace (snd y) = trace w2 @ new" "request_outcomes new = pre @ [out]"
        "\<forall>x\<in>set pre. unsatisfied cb x" "fst y = final_result cb out"
      by blast
    let ?new = "[Sleep (clock w) (max (min d (t - (time_time w - s))) 0), Request (clock w1) r] @ new"
    have "trace (snd y) = trace w @ ?new"
      using n(1) tr by simp
    moreover have "request_outcomes ?new = (r # pre) @ [out]"
      using n(2) by simp
    moreover have "\<forall>x\<in>set (r # pre). unsatisfied cb x"
      using n(3) True by simp
    ultimately show ?thesis
      using n(4) by blast
  next
    case False
    with step have y: "y = (final_result cb r, w2)"
      by (auto simp: final_result_def unsatisfied_def split: sum.splits if_splits)
    let ?new = "[Sleep (clock w) (max (min d (t - (time_time w - s))) 0), Request (clock w1) r]"
    have "trace (snd y) = trace w @ ?new" "request_outcomes ?new = [] @ [r]"
      "\<forall>x\<in>set []. unsatisfied cb x" "fst y = final_result cb r"
      using tr y by simp_all
    then show ?thesis
      by blast
  qed
  qed
  then show ?thesis .
qed

lemma retry_loop_failure:
  assumes "request E m url kw (time_sleep (max (min d (t - (clock w - s))) 0) w) = (Inl f, w2)"
  shows "retry_loop E m url cb d t kw s w = Some (Inl f, w2)"
  by (subst retry_loop.simps, unfold Let_def time_time_def assms(1)) (simp add: assms)

lemma retry_loop_done:
  assumes "request E m url kw (time_sleep (max (min d (t - (clock w - s))) 0) w) = (Inr (res, err), w2)"
    and "cb res err"
  shows "retry_loop E m url cb d t kw s w = Some (Inr (res, err), w2)"
  by (subst retry_loop.simps, unfold Let_def time_time_def assms(1)) (simp add: assms)

lemma retry_loop_timeout:
  assumes "request E m url kw (time_sleep (max (min d (t - (clock w - s))) 0) w) = (Inr (res, err), w2)"
    and "\<not> cb res err" "t - (clock w - s) < d"
  shows "retry_loop E m url cb d t kw s w = Some (Inl (CheckDoneTimeoutException res err), w2)"
  by (subst retry_loop.simps, unfold Let_def time_time_def assms(1)) (simp add: assms)

lemma retry_loop_again:
  assumes "request E m url kw (time_sleep (max (min d (t - (clock w - s))) 0) w) = (Inr (res, err), w2)"
    and "\<not> cb res err" "\<not> t - (clock w - s) < d"
  shows "retry_loop E m url cb d t kw s w = retry_loop E m url cb d t kw s w2"
  by (subst retry_loop.simps, unfold Let_def time_time_def assms(1)) (simp add: assms)


lemma start_shape:
  assumes "fetch_url_json_with_retries E m url cb d t sf kw w = Some y"
  shows "\<exists>new pre out. trace (snd y) = trace w @ new
           \<and> request_outcomes new = pre @ [out]
           \<and> (\<forall>x\<in>set pre. unsatisfied cb x)
           \<and> fst y = final_result cb out"
proof (cases sf)
  case True
  with assms have "retry_loop E m url cb d t kw (time_time w) w = Some y"
    by (simp add: fetch_url_json_with_retries_def)
  then show ?thesis
    by (rule retry_loop_shape)
next
  case False
  obtain r w1 where rq: "request E m url kw w = (r, w1)"
    by (cases "request E m url kw w")
  have tr: "trace w1 = trace w @ [Request (clock w) r]"
    using rq by (rule request_trace)
  show ?thesis
  proof (cases "unsatisfied cb r")
    case u: True
    then obtain res err where r: "r = Inr (res, err)" and ncb: "\<not> cb res err"
      by (auto simp: unsatisfied_def split: sum.splits)
    from assms False have "retry_loop E m url cb d t kw (time_time w) w1 = Some y"
      by (simp add: fetch_url_json_with_retries_def rq r ncb)
    from retry_loop_shape [OF this] obtain new pre out where
      n: "trace (snd y) = trace w1 @ new" "request_outcomes new = pre @ [out]"
        "\<forall>x\<in>set pre. unsatisfied cb x" "fst y = final_result cb out"
      by blast
    have "trace (snd y) = trace w @ (Request (clock w) r # new)"
      using n(1) tr by simp
    moreover have "request_outcomes (Request (clock w) r # new) = (r # pre) @ [out]"
      using n(2) by simp
    moreover have "\<forall>x\<in>set (r # pre). unsatisfied cb x"
      using n(3) u by simp
    ultimately show ?thesis
      using n(4) by blast
  next
    case nu: False
    with assms False have y: "y = (final_result cb r, w1)"
      by (auto simp: fetch_url_json_with_retries_def rq final_result_def unsatisfied_def
          split: sum.splits if_splits)
    have "trace (snd y) = trace w @ [Request (clock w) r]"
      "request_outcomes [Request (clock w) r] = [] @ [r]"
      "\<forall>x\<in>set []. unsatisfied cb x" "fst y = final_result cb r"
      using tr y by simp_all
    then show ?thesis
      by blast
  qed
qed

lemma instant_iteration:
  assumes inst: "\<And>w. \<exists>out. request E m url kw w =
        (Inr out, w\<lparr>trace := trace w @ [Request (clock w) (Inr out)]\<rparr>)"
    and nd: "\<And>res err. \<not> cb res err"
    and left: "left = t - (c - s)" and d': "d' = max (min d left) 0" and c': "c' = c + d'"
  shows "\<exists>res err. retry_loop E m url cb d t kw s \<lparr>clock = c, trace = tr\<rparr> =
      (if left < d
       then Some (Inl (CheckDoneTimeoutException res err),
              \<lparr>clock = c', trace = tr @ [Sleep c d', Request c' (Inr (res, err))]\<rparr>)
       else retry_loop E m url cb d t kw s
              \<lparr>clock = c', trace = tr @ [Sleep c d', Request c' (Inr (res, err))]\<rparr>)"
proof -
  let ?w = "\<lparr>clock = c, trace = tr\<rparr>"
  define w1 where "w1 = time_sleep (max (min d (t - (clock ?w - s))) 0) ?w"
  from inst [of w1] obtain res err where
    "request E m url kw w1 = (Inr (res, err), w1\<lparr>trace := trace w1 @ [Request (clock w1) (Inr (res, err))]\<rparr>)"
    by auto
  moreover have "w1\<lparr>trace := trace w1 @ [Request (clock w1) (Inr (res, err))]\<rparr> =
      \<lparr>clock = c', trace = tr @ [Sleep c d', Request c' (Inr (res, err))]\<rparr>"
    by (simp add: w1_def time_sleep_def left d' c')
  ultimately have rq: "request E m url kw (time_sleep (max (min d (t - (clock ?w - s))) 0) ?w) =
      (Inr (res, err), \<lparr>clock = c', trace = tr @ [Sleep c d', Request c' (Inr (res, err))]\<rparr>)"
    by (simp add: w1_def)
  show ?thesis
  proof (cases "left < d")
    case True
    then have "t - (clock ?w - s) < d"
      by (simp add: left)
    from retry_loop_timeout [OF rq nd this] True show ?thesis
      by auto
  next
    case False
    then have "\<not> t - (clock ?w - s) < d"
      by (simp add: left)
    from retry_loop_again [OF rq nd this] False show ?thesis
      by auto
  qed
qed

lemma instant_request:
  "request instant_env m url kw w =
     (Inr (Some (JObj []), None),
      w\<lparr>trace := trace w @ [Request (clock w) (Inr (Some (JObj []), None))]\<rparr>)"
  by (simp add: request_def instant_env_def fetch_url_json_def contains_error_def Let_def)

lemma instant_run:
  "fetch_url_json_with_retries instant_env sample_credentials sample_url never_done 10 25 False
      default_opts world0 =
   Some (Inl (CheckDoneTimeoutException (Some (JObj [])) None),
     \<lparr>clock = 25,
      trace =
        [Request 0 (Inr (Some (JObj []), None)), Sleep 0 10,
         Request 10 (Inr (Some (JObj []), None)), Sleep 10 10,
         Request 20 (Inr (Some (JObj []), None)), Sleep 20 5,
         Request 25 (Inr (Some (JObj []), None))]\<rparr>)"
  by code_simp

lemma broken_request:
  "request broken_env m url kw w =
     (Inl (FailJson (''Cannot decode content retrieved from '' @ url) None),
      w\<lparr>trace := trace w @ [Request (clock w)
                 (Inl (FailJson (''Cannot decode content retrieved from '' @ url) None))]\<rparr>)"
  by (simp add: request_def broken_env_def fetch_url_json_def Let_def)

text \<open>
  Claim C1, as the code has it. With a delay of 10 and a timeout of 25 seconds,
  \<^verbatim>\<open>skip_first\<close> false, a predicate that is never satisfied and requests that all return at
  once, the poller makes exactly four requests, at 0, 10, 20 and 25 seconds after the start
  (the last sleep is cut to the 5 seconds that are left), and then raises
  \<^verbatim>\<open>CheckDoneTimeoutException\<close> with the outcome of the fourth request; it returns, and there
  is no fifth request.
\<close>

theorem poll_timeout_after_four_requests:
  assumes inst: "\<And>w. \<exists>out. request E m url kw w =
        (Inr out, w\<lparr>trace := trace w @ [Request (clock w) (Inr out)]\<rparr>)"
    and nd: "\<And>res err. \<not> cb res err"
  shows "\<exists>o1 o2 o3 res err.
     fetch_url_json_with_retries E m url cb 10 25 False kw w =
       Some (Inl (CheckDoneTimeoutException res err),
             \<lparr>clock = clock w + 25,
              trace = trace w @
                [Request (clock w) (Inr o1),
                 Sleep (clock w) 10, Request (clock w + 10) (Inr o2),
                 Sleep (clock w + 10) 10, Request (clock w + 20) (Inr o3),
                 Sleep (clock w + 20) 5, Request (clock w + 25) (Inr (res, err))]\<rparr>)"
proof -
  let ?s = "clock w"
  from inst [of w] obtain r1 e1 where
    r1: "request E m url kw w = (Inr (r1, e1), w\<lparr>trace := trace w @ [Request ?s (Inr (r1, e1))]\<rparr>)"
    by auto
  let ?ta = "trace w @ [Request ?s (Inr (r1, e1))]"
  have wa: "w\<lparr>trace := ?ta\<rparr> = \<lparr>clock = ?s, trace = ?ta\<rparr>"
    by simp
  have start: "fetch_url_json_with_retries E m url cb 10 25 False kw w =
      retry_loop E m url cb 10 25 kw ?s \<lparr>clock = ?s, trace = ?ta\<rparr>"
    unfolding fetch_url_json_with_retries_def Let_def r1 wa time_time_def
    by (simp add: nd)
  obtain r2 e2 where
    i1: "retry_loop E m url cb 10 25 kw ?s \<lparr>clock = ?s, trace = ?ta\<rparr> =
         retry_loop E m url cb 10 25 kw ?s
           \<lparr>clock = ?s + 10, trace = ?ta @ [Sleep ?s 10, Request (?s + 10) (Inr (r2, e2))]\<rparr>"
    using instant_iteration [where cb = cb and left = 25 and t = 25 and c = "?s" and s = "?s"
        and d' = 10 and d = 10 and c' = "?s + 10" and tr = ?ta, OF inst nd]
    by auto
  let ?tb = "?ta @ [Sleep ?s 10, Request (?s + 10) (Inr (r2, e2))]"
  obtain r3 e3 where
    i2: "retry_loop E m url cb 10 25 kw ?s \<lparr>clock = ?s + 10, trace = ?tb\<rparr> =
         retry_loop E m url cb 10 25 kw ?s
           \<lparr>clock = ?s + 20,
            trace = ?tb @ [Sleep (?s + 10) 10, Request (?s + 20) (Inr (r3, e3))]\<rparr>"
    using instant_iteration [where cb = cb and left = 15 and t = 25 and c = "?s + 10"
        and s = "?s" and d' = 10 and d = 10 and c' = "?s + 20" and tr = ?tb, OF inst nd]
    by auto
  let ?tc = "?tb @ [Sleep (?s + 10) 10, Request (?s + 20) (Inr (r3, e3))]"
  obtain r4 e4 where
    i3: "retry_loop E m url cb 10 25 kw ?s \<lparr>clock = ?s + 20, trace = ?tc\<rparr> =
         Some (Inl (CheckDoneTimeoutException r4 e4),
           \<lparr>clock = ?s + 25,
            trace = ?tc @ [Sleep (?s + 20) 5, Request (?s + 25) (Inr (r4, e4))]\<rparr>)"
    using instant_iteration [where cb = cb and left = 5 and t = 25 and c = "?s + 20"
        and s = "?s" and d' = 5 and d = 10 and c' = "?s + 25" and tr = ?tc, OF inst nd]
    by auto
  have "fetch_url_json_with_retries E m url cb 10 25 False kw w =
     Some (Inl (CheckDoneTimeoutException r4 e4),
           \<lparr>clock = ?s + 25,
            trace = ?tc @ [Sleep (?s + 20) 5, Request (?s + 25) (Inr (r4, e4))]\<rparr>)"
    by (simp only: start i1 i2 i3)
  then show ?thesis
    by auto
qed

theorem poll_timeout_after_four_requests_witness:
  "\<exists>o1 o2 o3 res err.
     fetch_url_json_with_retries instant_env sample_credentials sample_url never_done 10 25 False
       default_opts world0 =
       Some (Inl (CheckDoneTimeoutException res err),
             \<lparr>clock = 25,
              trace =
                [Request 0 (Inr o1), Sleep 0 10, Request 10 (Inr o2),
                 Sleep 10 10, Request 20 (Inr o3),
                 Sleep 20 5, Request 25 (Inr (res, err))]\<rparr>)"
proof -
  have inst: "\<exists>out. request instant_env sample_credentials sample_url default_opts w =
        (Inr out, w\<lparr>trace := trace w @ [Request (clock w) (Inr out)]\<rparr>)" for w
    by (simp add: instant_request)
  have nd: "\<not> never_done res err" for res err
    by (simp add: never_done_def)
  from poll_timeout_after_four_requests [where cb = never_done and E = instant_env and m = sample_credentials
      and url = sample_url and kw = default_opts and w = world0, OF inst nd]
  show ?thesis
    by (simp add: world0_def)
qed

text \<open>
  The claim as worded (exactly three requests, none once 25 seconds have passed) fails on
  the environment that answers every request at once: the fourth request starts when
  exactly 25 seconds have passed.
\<close>

theorem poll_fourth_request_counterexample:
  "fetch_url_json_with_retries instant_env sample_credentials sample_url never_done 10 25 False
      default_opts world0 =
   Some (Inl (CheckDoneTimeoutException (Some (JObj [])) None),
     \<lparr>clock = 25,
      trace =
        [Request 0 (Inr (Some (JObj []), None)), Sleep 0 10,
         Request 10 (Inr (Some (JObj []), None)), Sleep 10 10,
         Request 20 (Inr (Some (JObj []), None)), Sleep 20 5,
         Request 25 (Inr (Some (JObj []), None))]\<rparr>)
   \<and> request_times
        [Request 0 (Inr (Some (JObj []), None)), Sleep 0 10,
         Request 10 (Inr (Some (JObj []), None)), Sleep 10 10,
         Request 20 (Inr (Some (JObj []), None)), Sleep 20 5,
         Request 25 (Inr (Some (JObj []), None))] = [0, 10, 20, 25]"
  using instant_run by simp

text \<open>
  Claim C2, as the code has it. With \<^verbatim>\<open>skip_first\<close> true the poller starts with waiting: it
  sleeps \<^verbatim>\<open>max(min(check_done_delay, check_done_timeout), 0)\<close> seconds and then sends its
  first request. When the predicate is satisfied on the outcome of that request, the poller
  returns this outcome, and the run consists of exactly that one sleep followed by exactly
  one request.
\<close>

theorem skip_first_sleeps_before_request:
  assumes "request E m url kw (time_sleep (max (min d t) 0) w) = (Inr (res, err), w2)"
    and "cb res err"
  shows "fetch_url_json_with_retries E m url cb d t True kw w = Some (Inr (res, err), w2)
     \<and> trace w2 = trace w @ [Sleep (clock w) (max (min d t) 0),
                              Request (clock w + max (min d t) 0) (Inr (res, err))]"
proof -
  have rq: "request E m url kw (time_sleep (max (min d (t - (clock w - time_time w))) 0) w)
              = (Inr (res, err), w2)"
    using assms(1) by (simp add: time_time_def)
  have "retry_loop E m url cb d t kw (time_time w) w = Some (Inr (res, err), w2)"
    using rq assms(2) by (rule retry_loop_done)
  moreover have "trace w2 = trace w @ [Sleep (clock w) (max (min d t) 0),
                              Request (clock w + max (min d t) 0) (Inr (res, err))]"
    using request_trace [OF assms(1)] by (simp add: time_sleep_def)
  ultimately show ?thesis
    by (simp add: fetch_url_json_with_retries_def)
qed

theorem skip_first_sleeps_before_request_witness:
  "fetch_url_json_with_retries instant_env sample_credentials sample_url always_done 10 180 True
      default_opts world0 =
     Some (Inr (Some (JObj []), None),
           \<lparr>clock = 10, trace = [Sleep 0 10, Request 10 (Inr (Some (JObj []), None))]\<rparr>)"
proof -
  let ?w2 = "\<lparr>clock = 10, trace = [Sleep 0 10, Request 10 (Inr (Some (JObj []), None))]\<rparr>"
  have rq: "request instant_env sample_credentials sample_url default_opts
              (time_sleep (max (min 10 180) 0) world0) = (Inr (Some (JObj []), None), ?w2)"
    by (simp add: instant_request time_sleep_def world0_def)
  have cb: "always_done (Some (JObj [])) None"
    by (simp add: always_done_def)
  from skip_first_sleeps_before_request [where cb = always_done, OF rq cb] show ?thesis
    by simp
qed

text \<open>
  The claim as worded (no sleep before the single request) fails with the default delay and
  timeout: the trace of the run starts with a sleep of 10 seconds.
\<close>

theorem skip_first_sleep_counterexample:
  "fetch_url_json_with_retries instant_env sample_credentials sample_url always_done 10 180 True
      default_opts world0 =
     Some (Inr (Some (JObj []), None),
           \<lparr>clock = 10, trace = [Sleep 0 10, Request 10 (Inr (Some (JObj []), None))]\<rparr>)"
  by code_simp

text \<open>
  Claim C3. A failure of the request that opens the poll, or of the request of any pass
  through the loop, is at once the result of the poller. And in every run that returns,
  each request but the last one returned with the predicate unsatisfied, and the result is
  the one that the last request gives: no request follows a failed request.
\<close>

theorem request_failure_propagates:
  "(request E m url kw w = (Inl f, w1) \<longrightarrow>
      fetch_url_json_with_retries E m url cb d t False kw w = Some (Inl f, w1))
   \<and> (request E m url kw (time_sleep (max (min d (t - (clock w - s))) 0) w) = (Inl f, w2) \<longrightarrow>
      retry_loop E m url cb d t kw s w = Some (Inl f, w2))
   \<and> (fetch_url_json_with_retries E m url cb d t sf kw w = Some (r, w') \<longrightarrow>
      (\<exists>new pre out. trace w' = trace w @ new
           \<and> request_outcomes new = pre @ [out]
           \<and> (\<forall>x\<in>set pre. unsatisfied cb x)
           \<and> r = final_result cb out))"
proof (intro conjI impI)
  assume "request E m url kw w = (Inl f, w1)"
  then show "fetch_url_json_with_retries E m url cb d t False kw w = Some (Inl f, w1)"
    by (simp add: fetch_url_json_with_retries_def)
next
  assume "request E m url kw (time_sleep (max (min d (t - (clock w - s))) 0) w) = (Inl f, w2)"
  then show "retry_loop E m url cb d t kw s w = Some (Inl f, w2)"
    by (rule retry_loop_failure)
next
  assume "fetch_url_json_with_retries E m url cb d t sf kw w = Some (r, w')"
  from start_shape [OF this] show "\<exists>new pre out. trace w' = trace w @ new
           \<and> request_outcomes new = pre @ [out]
           \<and> (\<forall>x\<in>set pre. unsatisfied cb x)
           \<and> r = final_result cb out"
    by simp
qed

theorem request_failure_propagates_witness:
  "fetch_url_json_with_retries broken_env sample_credentials sample_url never_done 10 25 False
      default_opts world0 =
     Some (Inl (FailJson (''Cannot decode content retrieved from '' @ sample_url) None),
           \<lparr>clock = 0,
            trace = [Request 0 (Inl (FailJson
                       (''Cannot decode content retrieved from '' @ sample_url) None))]\<rparr>)
   \<and> retry_loop broken_env sample_credentials sample_url never_done 10 25 default_opts 0 world0 =
     Some (Inl (FailJson (''Cannot decode content retrieved from '' @ sample_url) None),
           \<lparr>clock = 10,
            trace = [Sleep 0 10, Request 10 (Inl (FailJson
                       (''Cannot decode content retrieved from '' @ sample_url) None))]\<rparr>)
   \<and> (\<exists>new pre out.
        [Request 0 (Inr (Some (JObj []), None)), Sleep 0 10,
         Request 10 (Inr (Some (JObj []), None)), Sleep 10 10,
         Request 20 (Inr (Some (JObj []), None)), Sleep 20 5,
         Request 25 (Inr (Some (JObj []), None))] = new
        \<and> request_outcomes new = pre @ [out]
        \<and> (\<forall>x\<in>set pre. unsatisfied never_done x)
        \<and> Inl (CheckDoneTimeoutException (Some (JObj [])) None) = final_result never_done out)"
proof -
  let ?f = "FailJson (''Cannot decode content retrieved from '' @ sample_url) None"
  have a: "request broken_env sample_credentials sample_url default_opts world0 =
      (Inl ?f, \<lparr>clock = 0, trace = [Request 0 (Inl ?f)]\<rparr>)"
    by (simp add: broken_request world0_def)
  have b: "request broken_env sample_credentials sample_url default_opts
             (time_sleep (max (min 10 (25 - (clock world0 - 0))) 0) world0) =
      (Inl ?f, \<lparr>clock = 10, trace = [Sleep 0 10, Request 10 (Inl ?f)]\<rparr>)"
    by (simp add: broken_request time_sleep_def world0_def)
  note th = request_failure_propagates [where cb = never_done and d = 10 and t = 25]
  from th [THEN conjunct1, rule_format, OF a]
    th [THEN conjunct2, THEN conjunct1, rule_format, OF b]
    th [THEN conjunct2, THEN conjunct2, rule_format, OF instant_run]
  show ?thesis
    by (simp add: world0_def)
qed

end
